theory Spec2Isabelle
  imports Main "HOL-Library.Word" "HOL-Library.Sublist"
begin

section \<open>The system interface seen by run\_script.c\<close>

text \<open>
  The file \<^verbatim>\<open>src/slurmd/common/run_script.c\<close> talks to the operating system through
  \<^verbatim>\<open>access\<close>, \<^verbatim>\<open>fork\<close>, \<^verbatim>\<open>setpgrp\<close>, \<^verbatim>\<open>execve\<close>, \<^verbatim>\<open>waitpid\<close>, \<^verbatim>\<open>sleep\<close>,
  \<^verbatim>\<open>killpg\<close> and \<^verbatim>\<open>glob\<close>. The answers of the system are inputs of the model; the calls
  the code makes are recorded, in order, in a trace.
\<close>

datatype errno = EINTR | ECHILD | EINVAL

text \<open>The third argument of \<^verbatim>\<open>waitpid\<close>: \<^verbatim>\<open>opt = 0\<close> blocks, \<^verbatim>\<open>opt = WNOHANG\<close> polls.\<close>

datatype wopt = Block | WNOHANG

text \<open>
  One answer of \<^verbatim>\<open>waitpid(cpid, &status, opt)\<close>: \<^verbatim>\<open>rc < 0\<close> with the value of errno,
  \<^verbatim>\<open>rc == 0\<close> (nothing to report yet), or \<^verbatim>\<open>rc > 0\<close> with the status stored.
\<close>

datatype wait_result = Wait_err errno | Wait_none | Wait_pid int

text \<open>The value \<^verbatim>\<open>glob\<close> returns, with \<^verbatim>\<open>gl_pathv\<close> when it is 0.\<close>

datatype glob_result =
    Glob_ok "string list"
  | GLOB_NOMATCH
  | GLOB_NOSPACE
  | GLOB_ABORTED
  | Glob_other int

text \<open>The lines handed to \<^verbatim>\<open>debug\<close> and \<^verbatim>\<open>error\<close>, one constructor per call site.\<close>

datatype logmsg =
    Attempt_job "32 word" string string
  | Attempt string string
  | Can_not_run string string
  | Fork_failed string
  | Execve_failed
  | Waitpid_failed
  | Glob_out_of_memory
  | Glob_cannot_read string
  | Glob_unknown_code int
  | Unable_to_run string string
  | Iterator_out_of_memory
  | Exited_with_status string int

datatype event =
    Debug logmsg
  | Error logmsg
  | Access string int
  | Fork int
  | Setpgrp
  | Execve string "string list" "string list option"
  | Waitpid int wopt wait_result
  | Sleep nat
  | Killpg int int
  | Glob string
  | Globfree

text \<open>
  How a call ends. \<open>Return\<close> is a C \<^verbatim>\<open>return\<close>. \<open>Exit\<close> is \<^verbatim>\<open>exit(n)\<close> of the
  process, \<open>Exec\<close> a successful \<^verbatim>\<open>execve\<close> (the image is replaced), \<open>Abort\<close> a failed
  \<^verbatim>\<open>xassert\<close>, \<open>Fatal\<close> a call of \<^verbatim>\<open>fatal\<close>, \<open>Overflow\<close> the decrement of
  \<^verbatim>\<open>INT_MIN\<close>, \<open>Uninit\<close> the read of a variable never assigned. \<open>Pending\<close> says that
  the answers supplied for \<^verbatim>\<open>waitpid\<close> are used up and the loop is still running.
\<close>

datatype 'a outcome =
    Return 'a
  | Exit int
  | Exec
  | Abort
  | Fatal
  | Overflow
  | Uninit
  | Pending

definition SIGKILL :: int where
  "SIGKILL = 9"

definition INT_MIN :: int where
  "INT_MIN = - (2 ^ 31)"

text \<open>What the system answers during one call of \<^verbatim>\<open>run_one_script\<close>.\<close>

record os_script =
  access_rc :: int
  fork_rc :: int
  execve_returns :: bool
  waits :: "wait_result list"

text \<open>What the system answers to \<^verbatim>\<open>_script_list_create\<close> and the list package.\<close>

record os_glob =
  glob_rc :: glob_result
  list_create_ok :: bool
  iterator_ok :: bool

definition emit :: "event list \<Rightarrow> event list \<times> 'a \<Rightarrow> event list \<times> 'a" where
  "emit es r = (es @ fst r, snd r)"

section \<open>run\_one\_script\<close>

text \<open>
  The loop \<^verbatim>\<open>while (1)\<close> of lines 114 to 131, by recursion on the answers of
  \<^verbatim>\<open>waitpid\<close>. \<open>mw\<close> is the variable \<^verbatim>\<open>max_wait\<close>, \<open>opt\<close> the variable \<^verbatim>\<open>opt\<close>.
\<close>

fun wait_loop :: "int \<Rightarrow> int \<Rightarrow> wopt \<Rightarrow> wait_result list \<Rightarrow> event list \<times> int outcome" where
  "wait_loop cpid mw opt [] = ([], Pending)"
| "wait_loop cpid mw opt (Wait_err e # rs) =
     (if e = EINTR then emit [Waitpid cpid opt (Wait_err e)] (wait_loop cpid mw opt rs)
      else ([Waitpid cpid opt (Wait_err e), Error Waitpid_failed], Return 0))"
| "wait_loop cpid mw opt (Wait_none # rs) =
     (if mw \<le> INT_MIN then ([Waitpid cpid opt Wait_none, Sleep 1], Overflow)
      else if mw - 1 = 0
      then emit [Waitpid cpid opt Wait_none, Sleep 1, Killpg cpid SIGKILL]
             (wait_loop cpid (mw - 1) Block rs)
      else emit [Waitpid cpid opt Wait_none, Sleep 1] (wait_loop cpid (mw - 1) opt rs))"
| "wait_loop cpid mw opt (Wait_pid st # rs) =
     ([Waitpid cpid opt (Wait_pid st), Killpg cpid SIGKILL], Return st)"

text \<open>The branch \<^verbatim>\<open>cpid == 0\<close> of lines 93 to 107, run by the child.\<close>

definition child :: "string \<Rightarrow> string list option \<Rightarrow> os_script \<Rightarrow> event list \<times> int outcome" where
  "child p env os =
     (if execve_returns os
      then ([Setpgrp, Execve p [p] env, Error Execve_failed], Exit 127)
      else ([Setpgrp, Execve p [p] env], Exec))"

text \<open>
  \<open>dbg\<close> says whether \<^verbatim>\<open>xassert\<close> is compiled in (its header is not part of the
  file). A \<^verbatim>\<open>NULL\<close> pointer is \<open>None\<close>.
\<close>

definition run_one_script ::
  "bool \<Rightarrow> string \<Rightarrow> string option \<Rightarrow> 32 word \<Rightarrow> int \<Rightarrow> string list option \<Rightarrow> os_script
     \<Rightarrow> event list \<times> int outcome" where
  "run_one_script dbg name path jobid max_wait env os =
     (if dbg \<and> env = None then ([], Abort)
      else case path of
        None \<Rightarrow> ([], Return 0)
      | Some p \<Rightarrow>
          if p = [] then ([], Return 0)
          else emit [Debug (if jobid \<noteq> 0 then Attempt_job jobid name p else Attempt name p)]
            (if access_rc os < 0
             then ([Access p (access_rc os), Error (Can_not_run name p)], Return (- 1))
             else emit [Access p (access_rc os)]
               (if fork_rc os < 0
                then ([Fork (fork_rc os), Error (Fork_failed name)], Return (- 1))
                else emit [Fork (fork_rc os)]
                  (if fork_rc os = 0 then child p env os
                   else wait_loop (fork_rc os) max_wait
                          (if max_wait < 0 then Block else WNOHANG) (waits os)))))"

section \<open>The list of scripts\<close>

text \<open>
  Modelled from the spec: \<^verbatim>\<open>list_create\<close>, \<^verbatim>\<open>list_push\<close> and \<^verbatim>\<open>list_next\<close> of
  \<^verbatim>\<open>src/common/list.c\<close> are not among the sources. The specification asks of the
  container an "ordered sequence of strings, insertion order preserved, iterable once
  front-to-back": the list is a HOL list, \<open>list_push\<close> adds at the end, and the iterator
  walks from the head.
\<close>

definition list_push :: "string list \<Rightarrow> string \<Rightarrow> string list" where
  "list_push l x = l @ [x]"

text \<open>
  \<^verbatim>\<open>_script_list_create\<close>, lines 147 to 181: one case per value of \<^verbatim>\<open>glob\<close>, the match
  buffer released on the way out. The lines the callback \<^verbatim>\<open>_ef\<close> logs while \<^verbatim>\<open>glob\<close>
  runs are not recorded.
\<close>

definition script_list_create ::
  "string option \<Rightarrow> os_glob \<Rightarrow> event list \<times> string list option outcome" where
  "script_list_create pattern og =
     (case pattern of
        None \<Rightarrow> ([], Return None)
      | Some pat \<Rightarrow>
          (case glob_rc og of
             Glob_ok pathv \<Rightarrow>
               if list_create_ok og
               then ([Glob pat, Globfree], Return (Some (foldl list_push [] pathv)))
               else ([Glob pat], Fatal)
           | GLOB_NOMATCH \<Rightarrow> ([Glob pat, Globfree], Return None)
           | GLOB_NOSPACE \<Rightarrow> ([Glob pat, Error Glob_out_of_memory, Globfree], Return None)
           | GLOB_ABORTED \<Rightarrow> ([Glob pat, Error (Glob_cannot_read pat), Globfree], Return None)
           | Glob_other rc \<Rightarrow> ([Glob pat, Error (Glob_unknown_code rc), Globfree], Return None)))"

section \<open>run\_script\<close>

text \<open>
  The loop of lines 204 to 211. \<open>n\<close> counts the calls of \<^verbatim>\<open>run_one_script\<close> made so
  far, \<open>oss n\<close> is what the system answers during call \<open>n\<close>, and \<open>rc\<close> is the variable
  \<^verbatim>\<open>rc\<close>, \<open>None\<close> as long as nothing has been assigned to it.
\<close>

fun run_list ::
  "bool \<Rightarrow> string \<Rightarrow> 32 word \<Rightarrow> int \<Rightarrow> string list option \<Rightarrow> (nat \<Rightarrow> os_script) \<Rightarrow> nat
     \<Rightarrow> int option \<Rightarrow> string list \<Rightarrow> event list \<times> int outcome" where
  "run_list dbg name jobid max_wait env oss n rc [] =
     ([], case rc of None \<Rightarrow> Uninit | Some r \<Rightarrow> Return r)"
| "run_list dbg name jobid max_wait env oss n rc (s # l) =
     (case run_one_script dbg name (Some s) jobid max_wait env (oss n) of
        (t, Return r) \<Rightarrow>
          if r \<noteq> 0 then (t @ [Error (Exited_with_status s r)], Return r)
          else emit t (run_list dbg name jobid max_wait env oss (Suc n) (Some r) l)
      | (t, out) \<Rightarrow> (t, out))"

text \<open>
  \<open>err\<close> is the value \<^verbatim>\<open>error\<close> returns (\<^verbatim>\<open>src/common/log.c\<close> is not among the
  sources). The last case is \<^verbatim>\<open>fatal\<close> in \<^verbatim>\<open>_script_list_create\<close>, the only way this
  function ends without returning: the process ends there.
\<close>

definition run_script ::
  "int \<Rightarrow> bool \<Rightarrow> string \<Rightarrow> string option \<Rightarrow> 32 word \<Rightarrow> int \<Rightarrow> string list option
     \<Rightarrow> os_glob \<Rightarrow> (nat \<Rightarrow> os_script) \<Rightarrow> event list \<times> int outcome" where
  "run_script err dbg name pattern jobid max_wait env og oss =
     (case pattern of
        None \<Rightarrow> ([], Return 0)
      | Some pat \<Rightarrow>
          if pat = [] then ([], Return 0)
          else
            (case script_list_create pattern og of
               (t, Return None) \<Rightarrow> (t @ [Error (Unable_to_run name pat)], Return err)
             | (t, Return (Some l)) \<Rightarrow>
                 if iterator_ok og
                 then emit t (run_list dbg name jobid max_wait env oss 0 None l)
                 else (t @ [Error Iterator_out_of_memory], Return err)
             | (t, out) \<Rightarrow> (t, Fatal)))"

section \<open>Reading a trace\<close>

text \<open>
  The properties proved below speak of what a call did: whether it slept, signalled the
  group, created a process, collected the status of the child. The functions of this
  section read that off a trace.
\<close>

fun is_sleep :: "event \<Rightarrow> bool" where
  "is_sleep (Sleep n) = True"
| "is_sleep e = False"

fun is_killpg :: "event \<Rightarrow> bool" where
  "is_killpg (Killpg p s) = True"
| "is_killpg e = False"

fun is_fork :: "event \<Rightarrow> bool" where
  "is_fork (Fork c) = True"
| "is_fork e = False"



text \<open>
  An interrupted \<^verbatim>\<open>waitpid\<close>.
\<close>

fun is_eintr :: "event \<Rightarrow> bool" where
  "is_eintr (Waitpid c opt (Wait_err e)) = (e = EINTR)"
| "is_eintr e = False"

text \<open>
  \<open>waits_with opt e\<close>: if \<open>e\<close> is a call of \<^verbatim>\<open>waitpid\<close>, its third argument is \<open>opt\<close>.
\<close>

fun waits_with :: "wopt \<Rightarrow> event \<Rightarrow> bool" where
  "waits_with opt (Waitpid c opt' r) = (opt' = opt)"
| "waits_with opt e = True"

text \<open>
  The \<^verbatim>\<open>killpg\<close> of line 124 is the only one that directly follows a \<^verbatim>\<open>sleep\<close>
  (the one of line 128 follows a \<^verbatim>\<open>waitpid\<close>). \<open>timeout_kills\<close> counts the former;
  \<open>kills_after slept\<close> carries whether the previous event was a sleep.
\<close>

fun kills_after :: "bool \<Rightarrow> event list \<Rightarrow> nat" where
  "kills_after slept [] = 0"
| "kills_after slept (e # tr) =
     (if slept \<and> is_killpg e then 1 else 0) + kills_after (is_sleep e) tr"

definition timeout_kills :: "event list \<Rightarrow> nat" where
  "timeout_kills tr = kills_after False tr"


text \<open>
  The paths handed to \<^verbatim>\<open>access\<close>, in order. The call of line 84 is the first system
  call \<^verbatim>\<open>run_one_script\<close> makes for a script.
\<close>

fun accessed :: "event list \<Rightarrow> string list" where
  "accessed [] = []"
| "accessed (Access p rc # tr) = p # accessed tr"
| "accessed (e # tr) = accessed tr"


section \<open>Facts about the supervision loop\<close>

lemma emit_simps [simp]:
  "fst (emit es r) = es @ fst r" "snd (emit es r) = snd r"
  by (simp_all add: emit_def)

lemma run_one_script_parent:
  "env \<noteq> None \<or> \<not> dbg \<Longrightarrow> p \<noteq> [] \<Longrightarrow> 0 \<le> access_rc os \<Longrightarrow> 0 < fork_rc os \<Longrightarrow>
   run_one_script dbg name (Some p) jobid mw env os =
     emit [Debug (if jobid \<noteq> 0 then Attempt_job jobid name p else Attempt name p),
           Access p (access_rc os), Fork (fork_rc os)]
       (wait_loop (fork_rc os) mw (if mw < 0 then Block else WNOHANG) (waits os))"
  by (auto simp: run_one_script_def emit_def)

lemma kills_after_wait_loop:
  "kills_after True (fst (wait_loop c mw opt rs)) = kills_after False (fst (wait_loop c mw opt rs))"
  by (cases "(c, mw, opt, rs)" rule: wait_loop.cases) auto

lemma wait_loop_spent:
  "mw \<le> 0 \<Longrightarrow>
     kills_after False (fst (wait_loop c mw opt rs)) = 0
     \<and> list_all (waits_with opt) (fst (wait_loop c mw opt rs))"
proof (induction rs arbitrary: mw)
  case Nil
  then show ?case by simp
next
  case (Cons r rs)
  show ?case
  proof (cases r)
    case (Wait_err e)
    with Cons show ?thesis by (simp add: kills_after_wait_loop)
  next
    case Wait_none
    from Cons.prems have "mw - 1 \<le> 0" "mw - 1 \<noteq> 0" by simp_all
    with Cons.IH [of "mw - 1"] Wait_none show ?thesis
      by (simp add: kills_after_wait_loop)
  next
    case (Wait_pid st)
    then show ?thesis by simp
  qed
qed




lemma wait_loop_member_reap:
  "Waitpid c' opt' (Wait_pid st) \<in> set (fst (wait_loop c mw opt rs)) \<Longrightarrow>
     snd (wait_loop c mw opt rs) = Return st \<and> c' = c
     \<and> suffix [Waitpid c' opt' (Wait_pid st), Killpg c SIGKILL] (fst (wait_loop c mw opt rs))"
proof (induction rs arbitrary: mw opt)
  case Nil
  then show ?case by simp
next
  case (Cons r rs)
  show ?case
  proof (cases r)
    case (Wait_err e)
    with Cons show ?thesis by (auto split: if_splits simp: suffix_Cons)
  next
    case Wait_none
    with Cons show ?thesis by (auto split: if_splits simp: suffix_Cons)
  next
    case (Wait_pid st')
    with Cons.prems show ?thesis by auto
  qed
qed

lemma wait_loop_member_error:
  "Waitpid c' opt' (Wait_err e) \<in> set (fst (wait_loop c mw opt rs)) \<Longrightarrow> e \<noteq> EINTR \<Longrightarrow>
     snd (wait_loop c mw opt rs) = Return 0
     \<and> suffix [Waitpid c' opt' (Wait_err e), Error Waitpid_failed] (fst (wait_loop c mw opt rs))"
proof (induction rs arbitrary: mw opt)
  case Nil
  then show ?case by simp
next
  case (Cons r rs)
  show ?case
  proof (cases r)
    case (Wait_err e')
    with Cons show ?thesis by (auto split: if_splits simp: suffix_Cons)
  next
    case Wait_none
    with Cons show ?thesis by (auto split: if_splits simp: suffix_Cons)
  next
    case (Wait_pid st')
    with Cons.prems show ?thesis by auto
  qed
qed

lemma wait_loop_eintr:
  "fst (wait_loop c mw opt (filter (\<lambda>r. r \<noteq> Wait_err EINTR) rs))
     = filter (\<lambda>e. \<not> is_eintr e) (fst (wait_loop c mw opt rs))
   \<and> snd (wait_loop c mw opt (filter (\<lambda>r. r \<noteq> Wait_err EINTR) rs)) = snd (wait_loop c mw opt rs)"
proof (induction rs arbitrary: mw opt)
  case Nil
  then show ?case by simp
next
  case (Cons r rs)
  show ?case
  proof (cases r)
    case (Wait_err e)
    with Cons show ?thesis by simp
  next
    case Wait_none
    with Cons show ?thesis by simp
  next
    case (Wait_pid st')
    then show ?thesis by simp
  qed
qed

lemma wait_loop_eintr_prefix:
  "wait_loop c mw opt (replicate n (Wait_err EINTR) @ rs)
     = emit (replicate n (Waitpid c opt (Wait_err EINTR))) (wait_loop c mw opt rs)"
  by (induction n) (simp_all add: emit_def)


lemma wait_loop_polling:
  "mw \<le> 0 \<Longrightarrow> INT_MIN + int n \<le> mw \<Longrightarrow>
     wait_loop c mw opt (replicate n Wait_none)
       = (concat (replicate n [Waitpid c opt Wait_none, Sleep 1]), Pending)"
proof (induction n arbitrary: mw)
  case 0
  then show ?case by simp
next
  case (Suc n)
  from Suc.prems have "mw - 1 \<le> 0" "INT_MIN + int n \<le> mw - 1" "\<not> mw \<le> INT_MIN" "mw - 1 \<noteq> 0"
    by simp_all
  with Suc.IH [of "mw - 1"] show ?case by (simp add: emit_def)
qed

section \<open>Facts about the batch\<close>

lemma foldl_list_push: "foldl list_push acc xs = acc @ xs"
  by (induction xs arbitrary: acc) (simp_all add: list_push_def)

lemma script_list_create_ok:
  "glob_rc og = Glob_ok paths \<Longrightarrow> list_create_ok og \<Longrightarrow>
     script_list_create (Some pat) og = ([Glob pat, Globfree], Return (Some paths))"
  by (simp add: script_list_create_def foldl_list_push)

lemma run_script_ok:
  "pat \<noteq> [] \<Longrightarrow> glob_rc og = Glob_ok paths \<Longrightarrow> list_create_ok og \<Longrightarrow> iterator_ok og \<Longrightarrow>
     run_script err dbg name (Some pat) jobid mw env og oss
       = emit [Glob pat, Globfree] (run_list dbg name jobid mw env oss 0 None paths)"
  by (simp add: run_script_def script_list_create_ok)

lemma run_list_zero:
  "\<forall>(i, s) \<in> set (enumerate n l). snd (run_one_script dbg name (Some s) jobid mw env (oss i)) = Return 0 \<Longrightarrow>
   run_list dbg name jobid mw env oss n rc l =
     (concat (map (\<lambda>(i, s). fst (run_one_script dbg name (Some s) jobid mw env (oss i))) (enumerate n l)),
      if l = [] then (case rc of None \<Rightarrow> Uninit | Some r \<Rightarrow> Return r) else Return 0)"
proof (induction l arbitrary: n rc)
  case Nil
  then show ?case by simp
next
  case (Cons s l)
  from Cons.prems
  have hd: "run_one_script dbg name (Some s) jobid mw env (oss n)
              = (fst (run_one_script dbg name (Some s) jobid mw env (oss n)), Return 0)"
    by (simp add: prod_eq_iff)
  from Cons.prems
  have "\<forall>(i, s) \<in> set (enumerate (Suc n) l).
          snd (run_one_script dbg name (Some s) jobid mw env (oss i)) = Return 0"
    by simp
  from Cons.IH [OF this, of "Some 0"] show ?case
    by (subst run_list.simps, subst hd) (simp add: emit_def)
qed

lemma run_list_stop:
  "\<forall>(i, s) \<in> set (enumerate n pre). snd (run_one_script dbg name (Some s) jobid mw env (oss i)) = Return 0 \<Longrightarrow>
   snd (run_one_script dbg name (Some s) jobid mw env (oss (n + length pre))) = Return r \<Longrightarrow> r \<noteq> 0 \<Longrightarrow>
   run_list dbg name jobid mw env oss n rc (pre @ s # post) =
     (concat (map (\<lambda>(i, s). fst (run_one_script dbg name (Some s) jobid mw env (oss i)))
                (enumerate n (pre @ [s])))
        @ [Error (Exited_with_status s r)],
      Return r)"
proof (induction pre arbitrary: n rc)
  case Nil
  then have hd: "run_one_script dbg name (Some s) jobid mw env (oss n)
              = (fst (run_one_script dbg name (Some s) jobid mw env (oss n)), Return r)"
    by (simp add: prod_eq_iff)
  from Nil(3) show ?case
    by (simp only: append_Nil) (subst run_list.simps, subst hd, simp)
next
  case (Cons q pre)
  from Cons.prems(1)
  have hd: "run_one_script dbg name (Some q) jobid mw env (oss n)
              = (fst (run_one_script dbg name (Some q) jobid mw env (oss n)), Return 0)"
    by (simp add: prod_eq_iff)
  from Cons.prems
  have "\<forall>(i, s) \<in> set (enumerate (Suc n) pre).
          snd (run_one_script dbg name (Some s) jobid mw env (oss i)) = Return 0"
    and "snd (run_one_script dbg name (Some s) jobid mw env (oss (Suc n + length pre))) = Return r"
    by simp_all
  from Cons.IH [OF this Cons.prems(3), of "Some 0"] show ?case
    by (simp only: append_Cons) (subst run_list.simps, subst hd, simp add: emit_def)
qed

lemma run_one_script_zero_launched:
  "q \<noteq> [] \<Longrightarrow> snd (run_one_script dbg name (Some q) jobid mw env os) = Return 0 \<Longrightarrow>
     (env \<noteq> None \<or> \<not> dbg) \<and> 0 \<le> access_rc os \<and> 0 < fork_rc os"
  by (auto simp: run_one_script_def child_def split: if_splits)

lemma run_list_first_nonzero:
  "\<forall>(i, q) \<in> set (enumerate n pre). snd (run_one_script dbg name (Some q) jobid mw env (oss i)) = Return 0 \<Longrightarrow>
   snd (run_one_script dbg name (Some s) jobid mw env (oss (n + length pre))) \<noteq> Return 0 \<Longrightarrow>
   run_list dbg name jobid mw env oss n rc (pre @ s # post) =
     (concat (map (\<lambda>(i, q). fst (run_one_script dbg name (Some q) jobid mw env (oss i)))
                (enumerate n pre))
        @ fst (run_one_script dbg name (Some s) jobid mw env (oss (n + length pre)))
        @ (case snd (run_one_script dbg name (Some s) jobid mw env (oss (n + length pre))) of
             Return r \<Rightarrow> [Error (Exited_with_status s r)] | _ \<Rightarrow> []),
      snd (run_one_script dbg name (Some s) jobid mw env (oss (n + length pre))))"
proof (induction pre arbitrary: n rc)
  case Nil
  obtain t out where R: "run_one_script dbg name (Some s) jobid mw env (oss n) = (t, out)"
    by (cases "run_one_script dbg name (Some s) jobid mw env (oss n)")
  with Nil(2) have "out \<noteq> Return 0" by simp
  then show ?case
    by (simp only: append_Nil) (subst run_list.simps, subst R, cases out, simp_all add: R)
next
  case (Cons q pre)
  from Cons.prems(1)
  have hd: "run_one_script dbg name (Some q) jobid mw env (oss n)
              = (fst (run_one_script dbg name (Some q) jobid mw env (oss n)), Return 0)"
    by (simp add: prod_eq_iff)
  from Cons.prems
  have "\<forall>(i, s) \<in> set (enumerate (Suc n) pre).
          snd (run_one_script dbg name (Some s) jobid mw env (oss i)) = Return 0"
    and "snd (run_one_script dbg name (Some s) jobid mw env (oss (Suc n + length pre))) \<noteq> Return 0"
    by simp_all
  from Cons.IH [OF this, of "Some 0"] show ?case
    by (simp only: append_Cons) (subst run_list.simps, subst hd, simp add: emit_def)
qed

lemma launched_traces:
  assumes "[] \<notin> set l"
    and "\<forall>(i, q) \<in> set (enumerate n l). snd (run_one_script dbg name (Some q) jobid mw env (oss i)) = Return 0"
  shows "map (\<lambda>(i, q). fst (run_one_script dbg name (Some q) jobid mw env (oss i))) (enumerate n l)
     = map (\<lambda>(i, q).
         [Debug (if jobid \<noteq> 0 then Attempt_job jobid name q else Attempt name q),
          Access q (access_rc (oss i)), Fork (fork_rc (oss i))]
           @ fst (wait_loop (fork_rc (oss i)) mw (if mw < 0 then Block else WNOHANG) (waits (oss i))))
       (enumerate n l)"
proof (rule map_cong [OF refl])
  fix x assume x: "x \<in> set (enumerate n l)"
  obtain i q where iq: "x = (i, q)" by (cases x)
  with x have "q \<in> set l" by (auto simp: in_set_enumerate_eq)
  with assms(1) have ne: "q \<noteq> []" by auto
  from assms(2) x iq
  have z: "snd (run_one_script dbg name (Some q) jobid mw env (oss i)) = Return 0" by auto
  from run_one_script_zero_launched [OF ne z]
  have l: "env \<noteq> None \<or> \<not> dbg" "0 \<le> access_rc (oss i)" "0 < fork_rc (oss i)" by simp_all
  from run_one_script_parent [OF l(1) ne l(2) l(3), of name jobid mw] iq
  show "(case x of (i, q) \<Rightarrow> fst (run_one_script dbg name (Some q) jobid mw env (oss i)))
      = (case x of (i, q) \<Rightarrow>
         [Debug (if jobid \<noteq> 0 then Attempt_job jobid name q else Attempt name q),
          Access q (access_rc (oss i)), Fork (fork_rc (oss i))]
           @ fst (wait_loop (fork_rc (oss i)) mw (if mw < 0 then Block else WNOHANG) (waits (oss i))))"
    by simp
qed

lemma accessed_append: "accessed (a @ b) = accessed a @ accessed b"
  by (induction a rule: accessed.induct) simp_all

lemma accessed_wait_loop: "accessed (fst (wait_loop c mw opt rs)) = []"
proof (induction rs arbitrary: mw opt)
  case Nil
  then show ?case by simp
next
  case (Cons r rs)
  then show ?case by (cases r) simp_all
qed

lemma accessed_run_one_script:
  "accessed (fst (run_one_script dbg name (Some s) jobid mw env os))
     = (if dbg \<and> env = None then [] else if s = [] then [] else [s])"
  by (simp add: run_one_script_def child_def accessed_wait_loop)

lemma accessed_launched:
  "accessed (concat (map (\<lambda>(i, q).
       [Debug (if jobid \<noteq> 0 then Attempt_job jobid name q else Attempt name q),
        Access q (access_rc (oss i)), Fork (fork_rc (oss i))]
         @ fst (wait_loop (fork_rc (oss i)) mw opt (waits (oss i)))) (enumerate n l))) = l"
  by (induction l arbitrary: n) (simp_all add: accessed_append accessed_wait_loop)

section \<open>Null and empty arguments\<close>

text \<open>
  C8. A \<^verbatim>\<open>NULL\<close> or empty pattern makes \<^verbatim>\<open>run_script\<close> return 0 at once, and a
  \<^verbatim>\<open>NULL\<close> or empty path makes \<^verbatim>\<open>run_one_script\<close> return 0 at once: no system call
  is made and nothing is logged, whatever the system would have answered. For
  \<^verbatim>\<open>run_one_script\<close> the environment is not \<^verbatim>\<open>NULL\<close>, as its contract asks, or
  \<^verbatim>\<open>xassert\<close> is compiled out (the assertion of line 74 comes before the test of the
  path).
\<close>

theorem noop_on_null_or_empty:
  "run_script err dbg name None jobid max_wait env og oss = ([], Return 0)
   \<and> run_script err dbg name (Some []) jobid max_wait env og oss = ([], Return 0)
   \<and> (env \<noteq> None \<or> \<not> dbg \<longrightarrow>
        run_one_script dbg name None jobid max_wait env os = ([], Return 0)
        \<and> run_one_script dbg name (Some []) jobid max_wait env os = ([], Return 0))"
  by (auto simp: run_script_def run_one_script_def)

theorem noop_on_null_or_empty_witness:
  "run_script (- 1) True ''epilog'' None 3 10 None
     \<lparr>glob_rc = GLOB_ABORTED, list_create_ok = False, iterator_ok = False\<rparr>
     (\<lambda>n. \<lparr>access_rc = - 1, fork_rc = - 1, execve_returns = True, waits = []\<rparr>) = ([], Return 0)
   \<and> run_one_script False ''epilog'' (Some []) 3 10 None
     \<lparr>access_rc = - 1, fork_rc = - 1, execve_returns = True, waits = []\<rparr> = ([], Return 0)"
  using noop_on_null_or_empty [of "- 1" True "''epilog''" 3 10 None
     "\<lparr>glob_rc = GLOB_ABORTED, list_create_ok = False, iterator_ok = False\<rparr>"
     "\<lambda>n. \<lparr>access_rc = - 1, fork_rc = - 1, execve_returns = True, waits = []\<rparr>"]
    noop_on_null_or_empty [of _ False "''epilog''" 3 10 None _ _
     "\<lparr>access_rc = - 1, fork_rc = - 1, execve_returns = True, waits = []\<rparr>"]
  by simp

section \<open>A pattern that matches nothing\<close>

text \<open>
  C1, as the code has it. For a pattern that is neither \<^verbatim>\<open>NULL\<close> nor empty and for
  which \<^verbatim>\<open>glob\<close> returns \<^verbatim>\<open>GLOB_NOMATCH\<close>, \<^verbatim>\<open>_script_list_create\<close> returns
  \<^verbatim>\<open>NULL\<close>, and \<^verbatim>\<open>run_script\<close> logs "Unable to run" and returns what \<^verbatim>\<open>error\<close>
  returns. No process is created, and the value returned is the one returned after a
  failed discovery (here \<^verbatim>\<open>GLOB_ABORTED\<close>).
\<close>

theorem zero_matches_reported_as_error:
  assumes "pat \<noteq> []" and "glob_rc og = GLOB_NOMATCH"
  shows "run_script err dbg name (Some pat) jobid mw env og oss
      = ([Glob pat, Globfree, Error (Unable_to_run name pat)], Return err)
    \<and> \<not> list_ex is_fork (fst (run_script err dbg name (Some pat) jobid mw env og oss))
    \<and> snd (run_script err dbg name (Some pat) jobid mw env og oss)
      = snd (run_script err dbg name (Some pat) jobid mw env (og\<lparr>glob_rc := GLOB_ABORTED\<rparr>) oss)"
  using assms by (simp add: run_script_def script_list_create_def)

theorem zero_matches_reported_as_error_witness:
  "run_script (- 1) False ''prolog'' (Some ''/etc/slurm/prolog.d/*'') 0 (- 1) (Some [])
      \<lparr>glob_rc = GLOB_NOMATCH, list_create_ok = True, iterator_ok = True\<rparr>
      (\<lambda>n. \<lparr>access_rc = 0, fork_rc = 977, execve_returns = False, waits = [Wait_pid 0]\<rparr>)
     = ([Glob ''/etc/slurm/prolog.d/*'', Globfree,
         Error (Unable_to_run ''prolog'' ''/etc/slurm/prolog.d/*'')], Return (- 1))"
  using zero_matches_reported_as_error [where pat = "''/etc/slurm/prolog.d/*''"
      and og = "\<lparr>glob_rc = GLOB_NOMATCH, list_create_ok = True, iterator_ok = True\<rparr>"
      and err = "- 1" and dbg = False and name = "''prolog''" and jobid = 0 and mw = "- 1"
      and env = "Some []"
      and oss = "\<lambda>n. \<lparr>access_rc = 0, fork_rc = 977, execve_returns = False, waits = [Wait_pid 0]\<rparr>"]
  by simp

text \<open>
  C1 as stated fails. With \<^verbatim>\<open>error\<close> returning -1 (\<^verbatim>\<open>SLURM_ERROR\<close>), a pattern with no
  match makes \<^verbatim>\<open>run_script\<close> log an error and return -1, not 0.
\<close>

theorem zero_matches_claim_counterexample:
  "run_script (- 1) False ''prolog'' (Some ''/etc/slurm/prolog.d/*'') 0 (- 1) (Some [])
      \<lparr>glob_rc = GLOB_NOMATCH, list_create_ok = True, iterator_ok = True\<rparr>
      (\<lambda>n. \<lparr>access_rc = 0, fork_rc = 977, execve_returns = False, waits = [Wait_pid 0]\<rparr>)
     = ([Glob ''/etc/slurm/prolog.d/*'', Globfree,
         Error (Unable_to_run ''prolog'' ''/etc/slurm/prolog.d/*'')], Return (- 1))
   \<and> snd (run_script (- 1) False ''prolog'' (Some ''/etc/slurm/prolog.d/*'') 0 (- 1) (Some [])
      \<lparr>glob_rc = GLOB_NOMATCH, list_create_ok = True, iterator_ok = True\<rparr>
      (\<lambda>n. \<lparr>access_rc = 0, fork_rc = 977, execve_returns = False, waits = [Wait_pid 0]\<rparr>))
     \<noteq> Return 0"
  by (simp add: run_script_def script_list_create_def)

section \<open>The order of the scripts\<close>

text \<open>
  C2. Let \<^verbatim>\<open>glob\<close> return the paths \<open>paths\<close>, none of them empty. \<^verbatim>\<open>run_script\<close> runs
  them from the first on, one after the other, and goes on as long as the calls of
  \<^verbatim>\<open>run_one_script\<close> return 0. For each script that returned 0 the trace holds, in the
  order of \<open>paths\<close>, its \<^verbatim>\<open>access\<close>, its \<^verbatim>\<open>fork\<close> that gave a child, and the
  supervision of that child. When all return 0 the trace is made of these and of nothing
  else, and the paths given to \<^verbatim>\<open>access\<close> are exactly \<open>paths\<close>. When \<open>s\<close> is the first
  script whose call does not return 0, the trace is made of the scripts before \<open>s\<close>,
  the call for \<open>s\<close> and the line logged for it; the paths given to \<^verbatim>\<open>access\<close> are those
  up to \<open>s\<close>, and nothing is done for the scripts after \<open>s\<close>. The order is that of
  \<^verbatim>\<open>glob\<close> as long as the list package keeps the order of insertion, which is what
  \<open>list_push\<close> is modelled to do.
\<close>

theorem scripts_run_in_glob_order:
  assumes "pat \<noteq> []" and "glob_rc og = Glob_ok paths" and "list_create_ok og" and "iterator_ok og"
    and "[] \<notin> set paths"
  shows "(paths = pre @ s # post
        \<and> (\<forall>(i, q) \<in> set (enumerate 0 pre).
              snd (run_one_script dbg name (Some q) jobid mw env (oss i)) = Return 0)
        \<and> snd (run_one_script dbg name (Some s) jobid mw env (oss (length pre))) \<noteq> Return 0 \<longrightarrow>
          run_script err dbg name (Some pat) jobid mw env og oss
            = ([Glob pat, Globfree]
                 @ concat (map (\<lambda>(i, q).
                     [Debug (if jobid \<noteq> 0 then Attempt_job jobid name q else Attempt name q),
                      Access q (access_rc (oss i)), Fork (fork_rc (oss i))]
                       @ fst (wait_loop (fork_rc (oss i)) mw (if mw < 0 then Block else WNOHANG)
                                (waits (oss i))))
                     (enumerate 0 pre))
                 @ fst (run_one_script dbg name (Some s) jobid mw env (oss (length pre)))
                 @ (case snd (run_one_script dbg name (Some s) jobid mw env (oss (length pre))) of
                      Return r \<Rightarrow> [Error (Exited_with_status s r)] | _ \<Rightarrow> []),
               snd (run_one_script dbg name (Some s) jobid mw env (oss (length pre))))
          \<and> accessed (fst (run_script err dbg name (Some pat) jobid mw env og oss))
            = (if dbg \<and> env = None then [] else pre @ [s]))
    \<and> (paths \<noteq> []
        \<and> (\<forall>(i, q) \<in> set (enumerate 0 paths).
              snd (run_one_script dbg name (Some q) jobid mw env (oss i)) = Return 0) \<longrightarrow>
          run_script err dbg name (Some pat) jobid mw env og oss
            = ([Glob pat, Globfree]
                 @ concat (map (\<lambda>(i, q).
                     [Debug (if jobid \<noteq> 0 then Attempt_job jobid name q else Attempt name q),
                      Access q (access_rc (oss i)), Fork (fork_rc (oss i))]
                       @ fst (wait_loop (fork_rc (oss i)) mw (if mw < 0 then Block else WNOHANG)
                                (waits (oss i))))
                     (enumerate 0 paths)),
               Return 0)
          \<and> accessed (fst (run_script err dbg name (Some pat) jobid mw env og oss)) = paths)"
proof -
  let ?one = "\<lambda>q i. run_one_script dbg name (Some q) jobid mw env (oss i)"
  let ?P = "\<lambda>(i, q).
       [Debug (if jobid \<noteq> 0 then Attempt_job jobid name q else Attempt name q),
        Access q (access_rc (oss i)), Fork (fork_rc (oss i))]
         @ fst (wait_loop (fork_rc (oss i)) mw (if mw < 0 then Block else WNOHANG) (waits (oss i)))"
  note R = run_script_ok [OF assms(1-4), of err dbg name jobid mw env oss]
  have a: "run_script err dbg name (Some pat) jobid mw env og oss
            = ([Glob pat, Globfree] @ concat (map ?P (enumerate 0 pre))
                 @ fst (?one s (length pre))
                 @ (case snd (?one s (length pre)) of
                      Return r \<Rightarrow> [Error (Exited_with_status s r)] | _ \<Rightarrow> []),
               snd (?one s (length pre)))
          \<and> accessed (fst (run_script err dbg name (Some pat) jobid mw env og oss))
            = (if dbg \<and> env = None then [] else pre @ [s])"
    if h: "paths = pre @ s # post"
      "\<forall>(i, q) \<in> set (enumerate 0 pre). snd (?one q i) = Return 0"
      "snd (?one s (length pre)) \<noteq> Return 0"
  proof -
    from assms(5) h(1) have ne: "[] \<notin> set pre" "s \<noteq> []" by auto
    from h(3) have "snd (?one s (0 + length pre)) \<noteq> Return 0" by simp
    from run_list_first_nonzero [OF h(2) this, of None post]
    have eq: "run_script err dbg name (Some pat) jobid mw env og oss
            = ([Glob pat, Globfree] @ concat (map ?P (enumerate 0 pre))
                 @ fst (?one s (length pre))
                 @ (case snd (?one s (length pre)) of
                      Return r \<Rightarrow> [Error (Exited_with_status s r)] | _ \<Rightarrow> []),
               snd (?one s (length pre)))"
      unfolding R h(1) launched_traces [OF ne(1) h(2)] by (simp add: emit_def)
    have pre_nil: "pre = []" if "dbg \<and> env = None"
    proof (cases pre)
      case Nil
      then show ?thesis .
    next
      case (Cons q qs)
      with h(2) have "snd (?one q 0) = Return 0" by simp
      with that show ?thesis by (simp add: run_one_script_def)
    qed
    have ac: "accessed (case snd (?one s (length pre)) of
                      Return r \<Rightarrow> [Error (Exited_with_status s r)] | _ \<Rightarrow> []) = []"
      by (cases "snd (?one s (length pre))") simp_all
    have al: "accessed (concat (map ?P (enumerate 0 pre))) = pre"
      by (rule accessed_launched)
    have ag: "accessed [Glob pat, Globfree] = []"
      by simp
    have "accessed (fst (run_script err dbg name (Some pat) jobid mw env og oss))
            = pre @ accessed (fst (?one s (length pre)))"
      unfolding eq by (simp only: fst_conv accessed_append al ac ag append_Nil append_Nil2)
    with pre_nil ne(2)
    have "accessed (fst (run_script err dbg name (Some pat) jobid mw env og oss))
            = (if dbg \<and> env = None then [] else pre @ [s])"
      by (simp add: accessed_run_one_script)
    with eq show ?thesis by blast
  qed
  have b: "run_script err dbg name (Some pat) jobid mw env og oss
            = ([Glob pat, Globfree] @ concat (map ?P (enumerate 0 paths)), Return 0)
          \<and> accessed (fst (run_script err dbg name (Some pat) jobid mw env og oss)) = paths"
    if h: "paths \<noteq> []"
      "\<forall>(i, q) \<in> set (enumerate 0 paths). snd (?one q i) = Return 0"
  proof -
    from run_list_zero [OF h(2), of None] h(1)
    have eq: "run_script err dbg name (Some pat) jobid mw env og oss
            = ([Glob pat, Globfree] @ concat (map ?P (enumerate 0 paths)), Return 0)"
      unfolding R launched_traces [OF assms(5) h(2)] by (simp add: emit_def)
    have al: "accessed (concat (map ?P (enumerate 0 paths))) = paths"
      by (rule accessed_launched)
    have ag: "accessed [Glob pat, Globfree] = []"
      by simp
    have "accessed (fst (run_script err dbg name (Some pat) jobid mw env og oss)) = paths"
      unfolding eq by (simp only: fst_conv accessed_append al ag append_Nil)
    with eq show ?thesis by blast
  qed
  from a b show ?thesis by blast
qed

theorem scripts_run_in_glob_order_witness:
  "run_script (- 1) False ''prolog'' (Some ''/h/*.sh'') 0 5 (Some [])
      \<lparr>glob_rc = Glob_ok [''/h/10-setup.sh'', ''/h/20-quota.sh''],
       list_create_ok = True, iterator_ok = True\<rparr>
      (\<lambda>n. \<lparr>access_rc = 0, fork_rc = 977 + int n, execve_returns = False,
            waits = (if n = 0 then [Wait_none, Wait_pid 0] else [Wait_pid 0])\<rparr>)
     = ([Glob ''/h/*.sh'', Globfree,
         Debug (Attempt ''prolog'' ''/h/10-setup.sh''), Access ''/h/10-setup.sh'' 0, Fork 977,
         Waitpid 977 WNOHANG Wait_none, Sleep 1, Waitpid 977 WNOHANG (Wait_pid 0), Killpg 977 9,
         Debug (Attempt ''prolog'' ''/h/20-quota.sh''), Access ''/h/20-quota.sh'' 0, Fork 978,
         Waitpid 978 WNOHANG (Wait_pid 0), Killpg 978 9], Return 0)
   \<and> accessed (fst (run_script (- 1) False ''prolog'' (Some ''/h/*.sh'') 0 5 (Some [])
      \<lparr>glob_rc = Glob_ok [''/h/10-setup.sh'', ''/h/20-quota.sh''],
       list_create_ok = True, iterator_ok = True\<rparr>
      (\<lambda>n. \<lparr>access_rc = 0, fork_rc = 977 + int n, execve_returns = False,
            waits = (if n = 0 then [Wait_none, Wait_pid 0] else [Wait_pid 0])\<rparr>)))
     = [''/h/10-setup.sh'', ''/h/20-quota.sh'']
   \<and> run_script (- 1) False ''prolog'' (Some ''/h/*.sh'') 0 5 (Some [])
      \<lparr>glob_rc = Glob_ok [''/h/10-setup.sh'', ''/h/20-quota.sh'', ''/h/30-mail.sh''],
       list_create_ok = True, iterator_ok = True\<rparr>
      (\<lambda>n. \<lparr>access_rc = (if n = 1 then - 1 else 0), fork_rc = 977 + int n,
            execve_returns = False, waits = [Wait_pid 0]\<rparr>)
     = ([Glob ''/h/*.sh'', Globfree,
         Debug (Attempt ''prolog'' ''/h/10-setup.sh''), Access ''/h/10-setup.sh'' 0, Fork 977,
         Waitpid 977 WNOHANG (Wait_pid 0), Killpg 977 9,
         Debug (Attempt ''prolog'' ''/h/20-quota.sh''), Access ''/h/20-quota.sh'' (- 1),
         Error (Can_not_run ''prolog'' ''/h/20-quota.sh''),
         Error (Exited_with_status ''/h/20-quota.sh'' (- 1))], Return (- 1))
   \<and> accessed (fst (run_script (- 1) False ''prolog'' (Some ''/h/*.sh'') 0 5 (Some [])
      \<lparr>glob_rc = Glob_ok [''/h/10-setup.sh'', ''/h/20-quota.sh'', ''/h/30-mail.sh''],
       list_create_ok = True, iterator_ok = True\<rparr>
      (\<lambda>n. \<lparr>access_rc = (if n = 1 then - 1 else 0), fork_rc = 977 + int n,
            execve_returns = False, waits = [Wait_pid 0]\<rparr>)))
     = [''/h/10-setup.sh'', ''/h/20-quota.sh'']"
proof -
  let ?og = "\<lparr>glob_rc = Glob_ok [''/h/10-setup.sh'', ''/h/20-quota.sh''],
       list_create_ok = True, iterator_ok = True\<rparr>"
  let ?oss = "\<lambda>n::nat. \<lparr>access_rc = 0, fork_rc = 977 + int n, execve_returns = False,
            waits = (if n = 0 then [Wait_none, Wait_pid 0] else [Wait_pid 0])\<rparr>"
  let ?og' = "\<lparr>glob_rc = Glob_ok [''/h/10-setup.sh'', ''/h/20-quota.sh'', ''/h/30-mail.sh''],
       list_create_ok = True, iterator_ok = True\<rparr>"
  let ?oss' = "\<lambda>n::nat. \<lparr>access_rc = (if n = 1 then - 1 else 0), fork_rc = 977 + int n,
            execve_returns = False, waits = [Wait_pid 0]\<rparr>"
  have h: "''/h/*.sh'' \<noteq> []"
    "glob_rc ?og = Glob_ok [''/h/10-setup.sh'', ''/h/20-quota.sh'']"
    "list_create_ok ?og" "iterator_ok ?og"
    "[] \<notin> set [''/h/10-setup.sh'', ''/h/20-quota.sh'']"
    by simp_all
  have p: "[''/h/10-setup.sh'', ''/h/20-quota.sh''] \<noteq> []
     \<and> (\<forall>(i, q) \<in> set (enumerate 0 [''/h/10-setup.sh'', ''/h/20-quota.sh'']).
           snd (run_one_script False ''prolog'' (Some q) 0 5 (Some []) (?oss i)) = Return 0)"
    by (simp add: run_one_script_def emit_def INT_MIN_def)
  from scripts_run_in_glob_order [OF h, where dbg = False and name = "''prolog''" and jobid = 0
      and mw = 5 and env = "Some []" and oss = ?oss and err = "- 1"] p
  have A: "run_script (- 1) False ''prolog'' (Some ''/h/*.sh'') 0 5 (Some []) ?og ?oss
      = ([Glob ''/h/*.sh'', Globfree]
           @ concat (map (\<lambda>(i, q).
               [Debug (if (0::32 word) \<noteq> 0 then Attempt_job 0 ''prolog'' q else Attempt ''prolog'' q),
                Access q (access_rc (?oss i)), Fork (fork_rc (?oss i))]
                 @ fst (wait_loop (fork_rc (?oss i)) 5 (if (5::int) < 0 then Block else WNOHANG)
                          (waits (?oss i))))
               (enumerate 0 [''/h/10-setup.sh'', ''/h/20-quota.sh''])), Return 0)
     \<and> accessed (fst (run_script (- 1) False ''prolog'' (Some ''/h/*.sh'') 0 5 (Some []) ?og ?oss))
       = [''/h/10-setup.sh'', ''/h/20-quota.sh'']"
    by blast
  have h': "''/h/*.sh'' \<noteq> []"
    "glob_rc ?og' = Glob_ok [''/h/10-setup.sh'', ''/h/20-quota.sh'', ''/h/30-mail.sh'']"
    "list_create_ok ?og'" "iterator_ok ?og'"
    "[] \<notin> set [''/h/10-setup.sh'', ''/h/20-quota.sh'', ''/h/30-mail.sh'']"
    by simp_all
  have p': "[''/h/10-setup.sh'', ''/h/20-quota.sh'', ''/h/30-mail.sh'']
        = [''/h/10-setup.sh''] @ ''/h/20-quota.sh'' # [''/h/30-mail.sh'']
     \<and> (\<forall>(i, q) \<in> set (enumerate 0 [''/h/10-setup.sh'']).
           snd (run_one_script False ''prolog'' (Some q) 0 5 (Some []) (?oss' i)) = Return 0)
     \<and> snd (run_one_script False ''prolog'' (Some ''/h/20-quota.sh'') 0 5 (Some [])
              (?oss' (length [''/h/10-setup.sh'']))) \<noteq> Return 0"
    by (simp add: run_one_script_def emit_def INT_MIN_def)
  from scripts_run_in_glob_order [OF h', where dbg = False and name = "''prolog''" and jobid = 0
      and mw = 5 and env = "Some []" and oss = ?oss' and err = "- 1"
      and pre = "[''/h/10-setup.sh'']" and s = "''/h/20-quota.sh''" and post = "[''/h/30-mail.sh'']"] p'
  have B: "run_script (- 1) False ''prolog'' (Some ''/h/*.sh'') 0 5 (Some []) ?og' ?oss'
      = ([Glob ''/h/*.sh'', Globfree]
           @ concat (map (\<lambda>(i, q).
               [Debug (if (0::32 word) \<noteq> 0 then Attempt_job 0 ''prolog'' q else Attempt ''prolog'' q),
                Access q (access_rc (?oss' i)), Fork (fork_rc (?oss' i))]
                 @ fst (wait_loop (fork_rc (?oss' i)) 5 (if (5::int) < 0 then Block else WNOHANG)
                          (waits (?oss' i))))
               (enumerate 0 [''/h/10-setup.sh'']))
           @ fst (run_one_script False ''prolog'' (Some ''/h/20-quota.sh'') 0 5 (Some [])
                    (?oss' (length [''/h/10-setup.sh''])))
           @ (case snd (run_one_script False ''prolog'' (Some ''/h/20-quota.sh'') 0 5 (Some [])
                    (?oss' (length [''/h/10-setup.sh'']))) of
                Return r \<Rightarrow> [Error (Exited_with_status ''/h/20-quota.sh'' r)] | _ \<Rightarrow> []),
         snd (run_one_script False ''prolog'' (Some ''/h/20-quota.sh'') 0 5 (Some [])
                    (?oss' (length [''/h/10-setup.sh'']))))
     \<and> accessed (fst (run_script (- 1) False ''prolog'' (Some ''/h/*.sh'') 0 5 (Some []) ?og' ?oss'))
       = (if False \<and> Some [] = (None :: string list option) then []
          else [''/h/10-setup.sh''] @ [''/h/20-quota.sh''])"
    by blast
  from A B show ?thesis
    by (simp add: run_one_script_def emit_def SIGKILL_def INT_MIN_def)
qed

section \<open>The first failure ends the batch\<close>

text \<open>
  C4. Let \<^verbatim>\<open>glob\<close> return \<open>pre @ s # post\<close>, let every script of \<open>pre\<close> return 0 and
  let \<open>s\<close>, script number \<open>length pre + 1\<close>, return \<open>r \<noteq> 0\<close>. Then \<^verbatim>\<open>run_script\<close>
  returns \<open>r\<close>, and its trace is made of the calls for \<open>pre\<close> and \<open>s\<close> and of the line
  logged for \<open>s\<close>: nothing is done for \<open>post\<close>, and what the system would have
  answered there is never asked. When every script of a batch that is not empty
  returns 0, \<^verbatim>\<open>run_script\<close> returns 0 after the calls for all of them.
\<close>

theorem first_failure_stops_batch:
  assumes "pat \<noteq> []" and "glob_rc og = Glob_ok paths" and "list_create_ok og" and "iterator_ok og"
  shows "(paths = pre @ s # post
        \<and> (\<forall>(i, q) \<in> set (enumerate 0 pre).
              snd (run_one_script dbg name (Some q) jobid mw env (oss i)) = Return 0)
        \<and> snd (run_one_script dbg name (Some s) jobid mw env (oss (length pre))) = Return r
        \<and> r \<noteq> 0 \<longrightarrow>
          run_script err dbg name (Some pat) jobid mw env og oss
            = ([Glob pat, Globfree]
                 @ concat (map (\<lambda>(i, q). fst (run_one_script dbg name (Some q) jobid mw env (oss i)))
                             (enumerate 0 (pre @ [s])))
                 @ [Error (Exited_with_status s r)],
               Return r))
    \<and> (paths \<noteq> []
        \<and> (\<forall>(i, q) \<in> set (enumerate 0 paths).
              snd (run_one_script dbg name (Some q) jobid mw env (oss i)) = Return 0) \<longrightarrow>
          run_script err dbg name (Some pat) jobid mw env og oss
            = ([Glob pat, Globfree]
                 @ concat (map (\<lambda>(i, q). fst (run_one_script dbg name (Some q) jobid mw env (oss i)))
                             (enumerate 0 paths)),
               Return 0))"
proof -
  note R = run_script_ok [OF assms, of err dbg name jobid mw env oss]
  have a: "run_script err dbg name (Some pat) jobid mw env og oss
            = ([Glob pat, Globfree]
                 @ concat (map (\<lambda>(i, q). fst (run_one_script dbg name (Some q) jobid mw env (oss i)))
                             (enumerate 0 (pre @ [s])))
                 @ [Error (Exited_with_status s r)],
               Return r)"
    if h: "paths = pre @ s # post"
      "\<forall>(i, q) \<in> set (enumerate 0 pre).
              snd (run_one_script dbg name (Some q) jobid mw env (oss i)) = Return 0"
      "snd (run_one_script dbg name (Some s) jobid mw env (oss (length pre))) = Return r"
      "r \<noteq> 0"
  proof -
    from h(3) have "snd (run_one_script dbg name (Some s) jobid mw env (oss (0 + length pre))) = Return r"
      by simp
    from run_list_stop [OF h(2) this h(4), of None post] show ?thesis
      unfolding R h(1) by (simp add: emit_def)
  qed
  have b: "run_script err dbg name (Some pat) jobid mw env og oss
            = ([Glob pat, Globfree]
                 @ concat (map (\<lambda>(i, q). fst (run_one_script dbg name (Some q) jobid mw env (oss i)))
                             (enumerate 0 paths)),
               Return 0)"
    if h: "paths \<noteq> []"
      "\<forall>(i, q) \<in> set (enumerate 0 paths).
              snd (run_one_script dbg name (Some q) jobid mw env (oss i)) = Return 0"
    using run_list_zero [OF h(2), of None] h(1) unfolding R by (simp add: emit_def)
  from a b show ?thesis by blast
qed

theorem first_failure_stops_batch_witness:
  "run_script (- 1) False ''prolog'' (Some ''/h/*.sh'') 0 (- 1) (Some [])
      \<lparr>glob_rc = Glob_ok [''/h/10-setup.sh'', ''/h/20-quota.sh'', ''/h/30-mail.sh''],
       list_create_ok = True, iterator_ok = True\<rparr>
      (\<lambda>n. \<lparr>access_rc = 0, fork_rc = 977 + int n, execve_returns = False,
            waits = [Wait_pid (if n = 0 then 0 else 256)]\<rparr>)
     = ([Glob ''/h/*.sh'', Globfree,
         Debug (Attempt ''prolog'' ''/h/10-setup.sh''), Access ''/h/10-setup.sh'' 0, Fork 977,
         Waitpid 977 Block (Wait_pid 0), Killpg 977 9,
         Debug (Attempt ''prolog'' ''/h/20-quota.sh''), Access ''/h/20-quota.sh'' 0, Fork 978,
         Waitpid 978 Block (Wait_pid 256), Killpg 978 9,
         Error (Exited_with_status ''/h/20-quota.sh'' 256)], Return 256)"
proof -
  let ?og = "\<lparr>glob_rc = Glob_ok [''/h/10-setup.sh'', ''/h/20-quota.sh'', ''/h/30-mail.sh''],
       list_create_ok = True, iterator_ok = True\<rparr>"
  let ?oss = "\<lambda>n::nat. \<lparr>access_rc = 0, fork_rc = 977 + int n, execve_returns = False,
            waits = [Wait_pid (if n = 0 then 0 else 256)]\<rparr>"
  let ?one = "\<lambda>q i. run_one_script False ''prolog'' (Some q) 0 (- 1) (Some []) (?oss i)"
  have h: "''/h/*.sh'' \<noteq> []"
    "glob_rc ?og = Glob_ok [''/h/10-setup.sh'', ''/h/20-quota.sh'', ''/h/30-mail.sh'']"
    "list_create_ok ?og" "iterator_ok ?og"
    by simp_all
  have p: "[''/h/10-setup.sh'', ''/h/20-quota.sh'', ''/h/30-mail.sh'']
        = [''/h/10-setup.sh''] @ ''/h/20-quota.sh'' # [''/h/30-mail.sh'']
     \<and> (\<forall>(i, q) \<in> set (enumerate 0 [''/h/10-setup.sh'']). snd (?one q i) = Return 0)
     \<and> snd (?one ''/h/20-quota.sh'' (length [''/h/10-setup.sh''])) = Return 256
     \<and> (256::int) \<noteq> 0"
    by (simp add: run_one_script_def emit_def)
  from first_failure_stops_batch [OF h, where pre = "[''/h/10-setup.sh'']"
      and s = "''/h/20-quota.sh''" and post = "[''/h/30-mail.sh'']" and r = 256
      and dbg = False and name = "''prolog''" and jobid = 0 and mw = "- 1" and env = "Some []"
      and oss = ?oss and err = "- 1"] p
  have "run_script (- 1) False ''prolog'' (Some ''/h/*.sh'') 0 (- 1) (Some []) ?og ?oss
      = ([Glob ''/h/*.sh'', Globfree]
           @ concat (map (\<lambda>(i, q). fst (?one q i))
                       (enumerate 0 ([''/h/10-setup.sh''] @ [''/h/20-quota.sh''])))
           @ [Error (Exited_with_status ''/h/20-quota.sh'' 256)], Return 256)"
    by blast
  then show ?thesis
    by (simp add: run_one_script_def emit_def SIGKILL_def)
qed

section \<open>The child whose execve fails\<close>

text \<open>
  C9. In the child (\<^verbatim>\<open>fork\<close> returned 0), when \<^verbatim>\<open>execve\<close> returns, the process logs
  the failure and ends with \<^verbatim>\<open>exit(127)\<close>: \<^verbatim>\<open>run_one_script\<close> does not return, and the
  loop of \<^verbatim>\<open>run_script\<close> around it runs no further script in the child. In the parent
  (\<^verbatim>\<open>fork\<close> returned \<open>cpid > 0\<close>) the status \<^verbatim>\<open>waitpid\<close> stores is returned as it
  is, after the signal to the group.
\<close>

theorem execve_failure_exits_127:
  assumes "env \<noteq> None \<or> \<not> dbg" and "p \<noteq> []" and "0 \<le> access_rc os"
    and "fork_rc os = 0" and "execve_returns os"
  shows "run_one_script dbg name (Some p) jobid mw env os
      = ([Debug (if jobid \<noteq> 0 then Attempt_job jobid name p else Attempt name p),
          Access p (access_rc os), Fork 0, Setpgrp, Execve p [p] env, Error Execve_failed],
         Exit 127)
    \<and> run_list dbg name jobid mw env (oss(n := os)) n rc (p # l)
      = ([Debug (if jobid \<noteq> 0 then Attempt_job jobid name p else Attempt name p),
          Access p (access_rc os), Fork 0, Setpgrp, Execve p [p] env, Error Execve_failed],
         Exit 127)
    \<and> (0 < cpid \<longrightarrow>
         run_one_script dbg name (Some p) jobid mw env
             (os\<lparr>fork_rc := cpid, waits := Wait_pid st # rs\<rparr>)
           = ([Debug (if jobid \<noteq> 0 then Attempt_job jobid name p else Attempt name p),
               Access p (access_rc os), Fork cpid,
               Waitpid cpid (if mw < 0 then Block else WNOHANG) (Wait_pid st),
               Killpg cpid SIGKILL],
              Return st))"
proof -
  from assms
  have a: "run_one_script dbg name (Some p) jobid mw env os
      = ([Debug (if jobid \<noteq> 0 then Attempt_job jobid name p else Attempt name p),
          Access p (access_rc os), Fork 0, Setpgrp, Execve p [p] env, Error Execve_failed],
         Exit 127)"
    by (auto simp: run_one_script_def child_def emit_def)
  have b: "run_list dbg name jobid mw env (oss(n := os)) n rc (p # l)
      = ([Debug (if jobid \<noteq> 0 then Attempt_job jobid name p else Attempt name p),
          Access p (access_rc os), Fork 0, Setpgrp, Execve p [p] env, Error Execve_failed],
         Exit 127)"
    by (subst run_list.simps, simp only: fun_upd_same, subst a) simp
  have c: "run_one_script dbg name (Some p) jobid mw env
             (os\<lparr>fork_rc := cpid, waits := Wait_pid st # rs\<rparr>)
           = ([Debug (if jobid \<noteq> 0 then Attempt_job jobid name p else Attempt name p),
               Access p (access_rc os), Fork cpid,
               Waitpid cpid (if mw < 0 then Block else WNOHANG) (Wait_pid st),
               Killpg cpid SIGKILL],
              Return st)"
    if "0 < cpid"
    using assms that by (simp add: run_one_script_parent emit_def)
  from a b c show ?thesis by blast
qed

theorem execve_failure_exits_127_witness:
  "run_one_script False ''prolog'' (Some ''/etc/slurm/prolog'') 0 10 (Some [''PATH=/bin''])
      \<lparr>access_rc = 0, fork_rc = 0, execve_returns = True, waits = []\<rparr>
      = ([Debug (Attempt ''prolog'' ''/etc/slurm/prolog''), Access ''/etc/slurm/prolog'' 0, Fork 0,
          Setpgrp, Execve ''/etc/slurm/prolog'' [''/etc/slurm/prolog''] (Some [''PATH=/bin'']),
          Error Execve_failed], Exit 127)
   \<and> run_one_script False ''prolog'' (Some ''/etc/slurm/prolog'') 0 10 (Some [''PATH=/bin''])
      \<lparr>access_rc = 0, fork_rc = 977, execve_returns = True, waits = [Wait_pid 32512]\<rparr>
      = ([Debug (Attempt ''prolog'' ''/etc/slurm/prolog''), Access ''/etc/slurm/prolog'' 0, Fork 977,
          Waitpid 977 WNOHANG (Wait_pid 32512), Killpg 977 9], Return 32512)"
proof -
  let ?os = "\<lparr>access_rc = 0, fork_rc = 0, execve_returns = True, waits = []\<rparr>"
  have h: "Some [''PATH=/bin''] \<noteq> None \<or> \<not> False" "''/etc/slurm/prolog'' \<noteq> []"
    "0 \<le> access_rc ?os" "fork_rc ?os = 0" "execve_returns ?os"
    by simp_all
  note z = execve_failure_exits_127 [OF h, where name = "''prolog''" and jobid = 0 and mw = 10
      and cpid = 977 and st = 32512 and rs = "[]"]
  from z show ?thesis by (simp add: SIGKILL_def)
qed

section \<open>Failures of waitpid\<close>

text \<open>
  C6. At any point of the loop (any value of the counter, either mode), \<open>n\<close> calls of
  \<^verbatim>\<open>waitpid\<close> that fail with \<^verbatim>\<open>EINTR\<close> are each followed by a further \<^verbatim>\<open>waitpid\<close> on
  the same child with the same option and the same counter, with no sleep, no signal and
  no line logged in between, and the answer to the call after them decides: when it
  returns the child with status \<open>st\<close> the call returns \<open>st\<close> after the signal to the
  group, and when it fails with an error other than \<^verbatim>\<open>EINTR\<close> the failure is logged
  and 0 is returned (not -1). The same is stated for \<^verbatim>\<open>run_one_script\<close> as a whole, where
  moreover taking the answers \<^verbatim>\<open>EINTR\<close> out changes neither how the call ends nor its
  trace but for the interrupted calls, and a \<^verbatim>\<open>waitpid\<close> that failed otherwise is always
  next to last in the trace, before the logged line, with 0 returned.
\<close>

theorem eintr_retried_other_errors_return_zero:
  "wait_loop c mw opt (replicate n (Wait_err EINTR) @ rs)
     = (replicate n (Waitpid c opt (Wait_err EINTR)) @ fst (wait_loop c mw opt rs),
        snd (wait_loop c mw opt rs))
   \<and> wait_loop c mw opt (replicate n (Wait_err EINTR) @ Wait_pid st # rs)
     = (replicate n (Waitpid c opt (Wait_err EINTR))
          @ [Waitpid c opt (Wait_pid st), Killpg c SIGKILL], Return st)
   \<and> (e \<noteq> EINTR \<longrightarrow>
        wait_loop c mw opt (replicate n (Wait_err EINTR) @ Wait_err e # rs)
          = (replicate n (Waitpid c opt (Wait_err EINTR))
               @ [Waitpid c opt (Wait_err e), Error Waitpid_failed], Return 0))
   \<and> ((env \<noteq> None \<or> \<not> dbg) \<and> p \<noteq> [] \<and> 0 \<le> access_rc os \<and> 0 < fork_rc os \<longrightarrow>
        run_one_script dbg name (Some p) jobid mw env
            (os\<lparr>waits := replicate n (Wait_err EINTR) @ Wait_pid st # rs\<rparr>)
          = ([Debug (if jobid \<noteq> 0 then Attempt_job jobid name p else Attempt name p),
              Access p (access_rc os), Fork (fork_rc os)]
               @ replicate n (Waitpid (fork_rc os) (if mw < 0 then Block else WNOHANG) (Wait_err EINTR))
               @ [Waitpid (fork_rc os) (if mw < 0 then Block else WNOHANG) (Wait_pid st),
                  Killpg (fork_rc os) SIGKILL],
             Return st)
        \<and> (e \<noteq> EINTR \<longrightarrow>
             run_one_script dbg name (Some p) jobid mw env
                 (os\<lparr>waits := replicate n (Wait_err EINTR) @ Wait_err e # rs\<rparr>)
               = ([Debug (if jobid \<noteq> 0 then Attempt_job jobid name p else Attempt name p),
                   Access p (access_rc os), Fork (fork_rc os)]
                    @ replicate n (Waitpid (fork_rc os) (if mw < 0 then Block else WNOHANG) (Wait_err EINTR))
                    @ [Waitpid (fork_rc os) (if mw < 0 then Block else WNOHANG) (Wait_err e),
                       Error Waitpid_failed],
                  Return 0)))
   \<and> snd (run_one_script dbg name path jobid mw env (os\<lparr>waits := filter (\<lambda>r. r \<noteq> Wait_err EINTR) rs\<rparr>))
     = snd (run_one_script dbg name path jobid mw env (os\<lparr>waits := rs\<rparr>))
   \<and> fst (run_one_script dbg name path jobid mw env (os\<lparr>waits := filter (\<lambda>r. r \<noteq> Wait_err EINTR) rs\<rparr>))
     = filter (\<lambda>e. \<not> is_eintr e) (fst (run_one_script dbg name path jobid mw env (os\<lparr>waits := rs\<rparr>)))
   \<and> (e \<noteq> EINTR
        \<and> Waitpid c opt (Wait_err e) \<in> set (fst (run_one_script dbg name path jobid mw env (os\<lparr>waits := rs\<rparr>)))
      \<longrightarrow> snd (run_one_script dbg name path jobid mw env (os\<lparr>waits := rs\<rparr>)) = Return 0
        \<and> suffix [Waitpid c opt (Wait_err e), Error Waitpid_failed]
             (fst (run_one_script dbg name path jobid mw env (os\<lparr>waits := rs\<rparr>))))"
proof -
  let ?o = "if mw < 0 then Block else WNOHANG"
  let ?pre = "[Debug (if jobid \<noteq> 0 then Attempt_job jobid name p else Attempt name p),
              Access p (access_rc os), Fork (fork_rc os)]"
  have l1: "wait_loop c mw opt (replicate n (Wait_err EINTR) @ rs)
     = (replicate n (Waitpid c opt (Wait_err EINTR)) @ fst (wait_loop c mw opt rs),
        snd (wait_loop c mw opt rs))" for c opt rs
    by (simp add: wait_loop_eintr_prefix emit_def)
  have l2: "wait_loop c mw opt (replicate n (Wait_err EINTR) @ Wait_pid st # rs)
     = (replicate n (Waitpid c opt (Wait_err EINTR))
          @ [Waitpid c opt (Wait_pid st), Killpg c SIGKILL], Return st)" for c opt
    by (simp add: l1)
  have l3: "wait_loop c mw opt (replicate n (Wait_err EINTR) @ Wait_err e # rs)
          = (replicate n (Waitpid c opt (Wait_err EINTR))
               @ [Waitpid c opt (Wait_err e), Error Waitpid_failed], Return 0)"
    if "e \<noteq> EINTR" for c opt
    using that by (simp add: l1)
  have r: "run_one_script dbg name (Some p) jobid mw env (os\<lparr>waits := ws\<rparr>)
      = (?pre @ fst (wait_loop (fork_rc os) mw ?o ws), snd (wait_loop (fork_rc os) mw ?o ws))"
    if "(env \<noteq> None \<or> \<not> dbg) \<and> p \<noteq> [] \<and> 0 \<le> access_rc os \<and> 0 < fork_rc os" for ws
    using run_one_script_parent [of env dbg p "os\<lparr>waits := ws\<rparr>" name jobid mw] that
    by (simp add: emit_def)
  have l4: "run_one_script dbg name (Some p) jobid mw env
            (os\<lparr>waits := replicate n (Wait_err EINTR) @ Wait_pid st # rs\<rparr>)
          = (?pre @ replicate n (Waitpid (fork_rc os) ?o (Wait_err EINTR))
               @ [Waitpid (fork_rc os) ?o (Wait_pid st), Killpg (fork_rc os) SIGKILL], Return st)"
    if h: "(env \<noteq> None \<or> \<not> dbg) \<and> p \<noteq> [] \<and> 0 \<le> access_rc os \<and> 0 < fork_rc os"
    unfolding r [OF h] l2 by (simp only: fst_conv snd_conv)
  have l5: "run_one_script dbg name (Some p) jobid mw env
                 (os\<lparr>waits := replicate n (Wait_err EINTR) @ Wait_err e # rs\<rparr>)
               = (?pre @ replicate n (Waitpid (fork_rc os) ?o (Wait_err EINTR))
                    @ [Waitpid (fork_rc os) ?o (Wait_err e), Error Waitpid_failed], Return 0)"
    if h: "(env \<noteq> None \<or> \<not> dbg) \<and> p \<noteq> [] \<and> 0 \<le> access_rc os \<and> 0 < fork_rc os"
      and ne: "e \<noteq> EINTR"
    unfolding r [OF h] l3 [OF ne] by (simp only: fst_conv snd_conv)
  let ?R = "\<lambda>rs. run_one_script dbg name path jobid mw env (os\<lparr>waits := rs\<rparr>)"
  have a: "snd (?R (filter (\<lambda>r. r \<noteq> Wait_err EINTR) rs)) = snd (?R rs)"
    by (simp add: run_one_script_def child_def wait_loop_eintr split: option.splits)
  have b: "fst (?R (filter (\<lambda>r. r \<noteq> Wait_err EINTR) rs)) = filter (\<lambda>e. \<not> is_eintr e) (fst (?R rs))"
    by (simp add: run_one_script_def child_def wait_loop_eintr split: option.splits)
  have c: "snd (?R rs) = Return 0 \<and> suffix [Waitpid c opt (Wait_err e), Error Waitpid_failed] (fst (?R rs))"
    if ne: "e \<noteq> EINTR" and m: "Waitpid c opt (Wait_err e) \<in> set (fst (?R rs))"
  proof -
    from m obtain q where p: "path = Some q" and q: "q \<noteq> []" "env \<noteq> None \<or> \<not> dbg"
        "0 \<le> access_rc os" "0 < fork_rc os"
      by (auto simp: run_one_script_def child_def split: option.splits if_splits)
    let ?pre = "[Debug (if jobid \<noteq> 0 then Attempt_job jobid name q else Attempt name q),
                 Access q (access_rc os), Fork (fork_rc os)]"
    from run_one_script_parent [of env dbg q "os\<lparr>waits := rs\<rparr>" name jobid mw] p q
    have f: "fst (?R rs) = ?pre @ fst (wait_loop (fork_rc os) mw ?o rs)"
      and s: "snd (?R rs) = snd (wait_loop (fork_rc os) mw ?o rs)"
      by simp_all
    from m have "Waitpid c opt (Wait_err e) \<in> set (fst (wait_loop (fork_rc os) mw ?o rs))"
      unfolding f by auto
    from wait_loop_member_error [OF this ne]
    have "snd (wait_loop (fork_rc os) mw ?o rs) = Return 0
      \<and> suffix [Waitpid c opt (Wait_err e), Error Waitpid_failed] (fst (wait_loop (fork_rc os) mw ?o rs))"
      by blast
    then show ?thesis
      unfolding f s by (blast intro: suffix_appendI)
  qed
  from l1 [of c opt rs] l2 [of c opt] l3 [of c opt] l4 l5 a b c show ?thesis by blast
qed

theorem eintr_retried_other_errors_return_zero_witness:
  "run_one_script False ''prolog'' (Some ''/etc/slurm/prolog'') 0 (- 1) (Some [])
        \<lparr>access_rc = 0, fork_rc = 977, execve_returns = False,
         waits = [Wait_err EINTR, Wait_err EINTR, Wait_pid 256]\<rparr>
      = ([Debug (Attempt ''prolog'' ''/etc/slurm/prolog''), Access ''/etc/slurm/prolog'' 0, Fork 977,
          Waitpid 977 Block (Wait_err EINTR), Waitpid 977 Block (Wait_err EINTR),
          Waitpid 977 Block (Wait_pid 256), Killpg 977 9], Return 256)
   \<and> run_one_script False ''prolog'' (Some ''/etc/slurm/prolog'') 0 (- 1) (Some [])
        \<lparr>access_rc = 0, fork_rc = 977, execve_returns = False,
         waits = [Wait_err EINTR, Wait_err EINTR, Wait_err ECHILD]\<rparr>
      = ([Debug (Attempt ''prolog'' ''/etc/slurm/prolog''), Access ''/etc/slurm/prolog'' 0, Fork 977,
          Waitpid 977 Block (Wait_err EINTR), Waitpid 977 Block (Wait_err EINTR),
          Waitpid 977 Block (Wait_err ECHILD), Error Waitpid_failed], Return 0)
   \<and> wait_loop 977 1 WNOHANG [Wait_none, Wait_err EINTR, Wait_pid 9]
      = ([Waitpid 977 WNOHANG Wait_none, Sleep 1, Killpg 977 9,
          Waitpid 977 Block (Wait_err EINTR), Waitpid 977 Block (Wait_pid 9), Killpg 977 9],
         Return 9)"
proof -
  let ?os = "\<lparr>access_rc = 0, fork_rc = 977, execve_returns = False, waits = []\<rparr>"
  have h: "(Some [] \<noteq> (None :: string list option) \<or> \<not> False) \<and> ''/etc/slurm/prolog'' \<noteq> []
     \<and> 0 \<le> access_rc ?os \<and> 0 < fork_rc ?os" "ECHILD \<noteq> EINTR"
    by simp_all
  note z = eintr_retried_other_errors_return_zero [where n = 2 and e = ECHILD and st = 256 and rs = "[]"
      and mw = "- 1" and os = ?os and dbg = False and env = "Some []"
      and p = "''/etc/slurm/prolog''" and name = "''prolog''" and jobid = 0]
  from z h
  have A: "run_one_script False ''prolog'' (Some ''/etc/slurm/prolog'') 0 (- 1) (Some [])
            (?os\<lparr>waits := replicate 2 (Wait_err EINTR) @ Wait_pid 256 # []\<rparr>)
          = ([Debug (if (0::32 word) \<noteq> 0 then Attempt_job 0 ''prolog'' ''/etc/slurm/prolog''
                     else Attempt ''prolog'' ''/etc/slurm/prolog''),
              Access ''/etc/slurm/prolog'' (access_rc ?os), Fork (fork_rc ?os)]
               @ replicate 2 (Waitpid (fork_rc ?os) (if (- 1 :: int) < 0 then Block else WNOHANG) (Wait_err EINTR))
               @ [Waitpid (fork_rc ?os) (if (- 1 :: int) < 0 then Block else WNOHANG) (Wait_pid 256),
                  Killpg (fork_rc ?os) SIGKILL],
             Return 256)"
    by blast
  from z h
  have B: "run_one_script False ''prolog'' (Some ''/etc/slurm/prolog'') 0 (- 1) (Some [])
            (?os\<lparr>waits := replicate 2 (Wait_err EINTR) @ Wait_err ECHILD # []\<rparr>)
          = ([Debug (if (0::32 word) \<noteq> 0 then Attempt_job 0 ''prolog'' ''/etc/slurm/prolog''
                     else Attempt ''prolog'' ''/etc/slurm/prolog''),
              Access ''/etc/slurm/prolog'' (access_rc ?os), Fork (fork_rc ?os)]
               @ replicate 2 (Waitpid (fork_rc ?os) (if (- 1 :: int) < 0 then Block else WNOHANG) (Wait_err EINTR))
               @ [Waitpid (fork_rc ?os) (if (- 1 :: int) < 0 then Block else WNOHANG) (Wait_err ECHILD),
                  Error Waitpid_failed],
             Return 0)"
    by blast
  from eintr_retried_other_errors_return_zero [where n = 1 and c = 977 and mw = 0 and opt = Block
      and st = 9 and rs = "[]"]
  have "wait_loop 977 0 Block (replicate 1 (Wait_err EINTR) @ Wait_pid 9 # [])
     = (replicate 1 (Waitpid 977 Block (Wait_err EINTR))
          @ [Waitpid 977 Block (Wait_pid 9), Killpg 977 SIGKILL], Return 9)"
    by blast
  then have C: "wait_loop 977 1 WNOHANG [Wait_none, Wait_err EINTR, Wait_pid 9]
      = ([Waitpid 977 WNOHANG Wait_none, Sleep 1, Killpg 977 9,
          Waitpid 977 Block (Wait_err EINTR), Waitpid 977 Block (Wait_pid 9), Killpg 977 9],
         Return 9)"
    by (simp add: emit_def SIGKILL_def INT_MIN_def)
  from A B C show ?thesis
    by (simp add: SIGKILL_def numeral_2_eq_2)
qed

section \<open>The signal after the exit\<close>

text \<open>
  C7. Whenever a \<^verbatim>\<open>waitpid\<close> of \<^verbatim>\<open>run_one_script\<close> has returned the child with a
  status \<open>st\<close>, in either mode and whatever \<open>st\<close> is (0 as well), the call ends with
  that \<^verbatim>\<open>waitpid\<close> followed by \<^verbatim>\<open>killpg(cpid, SIGKILL)\<close>, and returns \<open>st\<close>.
\<close>

theorem sweep_after_exit:
  "Waitpid c opt (Wait_pid st) \<in> set (fst (run_one_script dbg name path jobid mw env os)) \<Longrightarrow>
     snd (run_one_script dbg name path jobid mw env os) = Return st
     \<and> c = fork_rc os
     \<and> suffix [Waitpid c opt (Wait_pid st), Killpg (fork_rc os) SIGKILL]
          (fst (run_one_script dbg name path jobid mw env os))"
proof -
  assume m: "Waitpid c opt (Wait_pid st) \<in> set (fst (run_one_script dbg name path jobid mw env os))"
  let ?w = "wait_loop (fork_rc os) mw (if mw < 0 then Block else WNOHANG) (waits os)"
  from m obtain p where p: "path = Some p" and q: "p \<noteq> []" "env \<noteq> None \<or> \<not> dbg"
      "0 \<le> access_rc os" "0 < fork_rc os"
    by (auto simp: run_one_script_def child_def split: option.splits if_splits)
  let ?pre = "[Debug (if jobid \<noteq> 0 then Attempt_job jobid name p else Attempt name p),
               Access p (access_rc os), Fork (fork_rc os)]"
  from run_one_script_parent [OF q(2) q(1) q(3) q(4), of name jobid mw] p
  have f: "fst (run_one_script dbg name path jobid mw env os) = ?pre @ fst ?w"
    and s: "snd (run_one_script dbg name path jobid mw env os) = snd ?w"
    by simp_all
  from m have "Waitpid c opt (Wait_pid st) \<in> set (fst ?w)"
    unfolding f by auto
  from wait_loop_member_reap [OF this]
  have "snd ?w = Return st \<and> c = fork_rc os
    \<and> suffix [Waitpid c opt (Wait_pid st), Killpg (fork_rc os) SIGKILL] (fst ?w)"
    by blast
  then show ?thesis
    unfolding f s by (blast intro: suffix_appendI)
qed

theorem sweep_after_exit_witness:
  "Waitpid 977 WNOHANG (Wait_pid 0)
     \<in> set (fst (run_one_script False ''epilog'' (Some ''/etc/slurm/epilog'') 0 30 (Some [])
        \<lparr>access_rc = 0, fork_rc = 977, execve_returns = False, waits = [Wait_none, Wait_pid 0]\<rparr>))
   \<and> snd (run_one_script False ''epilog'' (Some ''/etc/slurm/epilog'') 0 30 (Some [])
        \<lparr>access_rc = 0, fork_rc = 977, execve_returns = False, waits = [Wait_none, Wait_pid 0]\<rparr>)
      = Return 0
   \<and> suffix [Waitpid 977 WNOHANG (Wait_pid 0), Killpg 977 SIGKILL]
        (fst (run_one_script False ''epilog'' (Some ''/etc/slurm/epilog'') 0 30 (Some [])
        \<lparr>access_rc = 0, fork_rc = 977, execve_returns = False, waits = [Wait_none, Wait_pid 0]\<rparr>))"
proof -
  let ?os = "\<lparr>access_rc = 0, fork_rc = 977, execve_returns = False, waits = [Wait_none, Wait_pid 0]\<rparr>"
  have m: "Waitpid 977 WNOHANG (Wait_pid 0)
     \<in> set (fst (run_one_script False ''epilog'' (Some ''/etc/slurm/epilog'') 0 30 (Some []) ?os))"
    by (simp add: run_one_script_def emit_def INT_MIN_def)
  from sweep_after_exit [OF m] m show ?thesis by simp
qed

section \<open>Reaping the child\<close>




section \<open>The timeout\<close>




section \<open>A budget of zero\<close>

text \<open>
  C10. With \<^verbatim>\<open>max_wait = 0\<close> the loop polls with \<^verbatim>\<open>WNOHANG\<close>, and it does so in every
  \<^verbatim>\<open>waitpid\<close> of the call: the switch to a blocking wait never happens, and no
  \<^verbatim>\<open>killpg\<close> follows a \<^verbatim>\<open>sleep\<close>. After the first poll that finds the child running
  the counter is -1 and the loop goes on polling. For a child that does not exit, the
  call is still polling after \<open>k\<close> sleeps, for every \<open>k\<close> up to \<open>2 ^ 31\<close> (the next
  decrement would be that of \<^verbatim>\<open>INT_MIN\<close>).
\<close>

theorem zero_budget_never_escalates:
  assumes "env \<noteq> None \<or> \<not> dbg" and "p \<noteq> []" and "0 \<le> access_rc os" and "0 < fork_rc os"
  shows "timeout_kills (fst (run_one_script dbg name (Some p) jobid 0 env os)) = 0
    \<and> list_all (waits_with WNOHANG) (fst (run_one_script dbg name (Some p) jobid 0 env os))
    \<and> (waits os = Wait_none # rs \<longrightarrow>
         run_one_script dbg name (Some p) jobid 0 env os
           = emit [Debug (if jobid \<noteq> 0 then Attempt_job jobid name p else Attempt name p),
                   Access p (access_rc os), Fork (fork_rc os),
                   Waitpid (fork_rc os) WNOHANG Wait_none, Sleep 1]
               (wait_loop (fork_rc os) (- 1) WNOHANG rs))
    \<and> (waits os = replicate k Wait_none \<and> k \<le> 2 ^ 31 \<longrightarrow>
         run_one_script dbg name (Some p) jobid 0 env os
           = ([Debug (if jobid \<noteq> 0 then Attempt_job jobid name p else Attempt name p),
               Access p (access_rc os), Fork (fork_rc os)]
                @ concat (replicate k [Waitpid (fork_rc os) WNOHANG Wait_none, Sleep 1]),
              Pending))"
proof -
  let ?R = "run_one_script dbg name (Some p) jobid 0 env os"
  from assms have R: "?R = emit [Debug (if jobid \<noteq> 0 then Attempt_job jobid name p else Attempt name p),
           Access p (access_rc os), Fork (fork_rc os)]
       (wait_loop (fork_rc os) 0 WNOHANG (waits os))"
    by (simp add: run_one_script_parent)
  from wait_loop_spent [of 0 "fork_rc os" WNOHANG "waits os"]
  have a: "timeout_kills (fst ?R) = 0" and b: "list_all (waits_with WNOHANG) (fst ?R)"
    unfolding R by (simp_all add: timeout_kills_def)
  have c: "?R = emit [Debug (if jobid \<noteq> 0 then Attempt_job jobid name p else Attempt name p),
                   Access p (access_rc os), Fork (fork_rc os),
                   Waitpid (fork_rc os) WNOHANG Wait_none, Sleep 1]
               (wait_loop (fork_rc os) (- 1) WNOHANG rs)"
    if "waits os = Wait_none # rs"
    unfolding R using that by (simp add: emit_def INT_MIN_def)
  have d: "?R = ([Debug (if jobid \<noteq> 0 then Attempt_job jobid name p else Attempt name p),
               Access p (access_rc os), Fork (fork_rc os)]
                @ concat (replicate k [Waitpid (fork_rc os) WNOHANG Wait_none, Sleep 1]),
              Pending)"
    if "waits os = replicate k Wait_none \<and> k \<le> 2 ^ 31"
  proof -
    from that have "INT_MIN + int k \<le> 0"
      by (simp add: INT_MIN_def)
    from wait_loop_polling [OF _ this, of "fork_rc os" WNOHANG] that show ?thesis
      unfolding R by (simp add: emit_def)
  qed
  from a b c d show ?thesis by blast
qed

theorem zero_budget_never_escalates_witness:
  "run_one_script False ''prolog'' (Some ''/etc/slurm/prolog'') 0 0 (Some [])
      \<lparr>access_rc = 0, fork_rc = 977, execve_returns = False, waits = replicate 3 Wait_none\<rparr>
     = ([Debug (Attempt ''prolog'' ''/etc/slurm/prolog''), Access ''/etc/slurm/prolog'' 0, Fork 977]
          @ concat (replicate 3 [Waitpid 977 WNOHANG Wait_none, Sleep 1]), Pending)
   \<and> timeout_kills (fst (run_one_script False ''prolog'' (Some ''/etc/slurm/prolog'') 0 0 (Some [])
      \<lparr>access_rc = 0, fork_rc = 977, execve_returns = False, waits = replicate 3 Wait_none\<rparr>)) = 0"
proof -
  let ?os = "\<lparr>access_rc = 0, fork_rc = 977, execve_returns = False, waits = replicate 3 Wait_none\<rparr>"
  let ?R = "run_one_script False ''prolog'' (Some ''/etc/slurm/prolog'') 0 0 (Some []) ?os"
  have h: "Some [] \<noteq> None \<or> \<not> False" "''/etc/slurm/prolog'' \<noteq> []" "0 \<le> access_rc ?os"
    "0 < fork_rc ?os"
    by simp_all
  note z = zero_budget_never_escalates [OF h, where name = "''prolog''" and jobid = 0 and k = 3
      and rs = "[Wait_none, Wait_none]"]
  from z have a: "timeout_kills (fst ?R) = 0"
    by blast
  have "waits ?os = replicate 3 Wait_none \<and> (3::nat) \<le> 2 ^ 31"
    by simp
  with z have "?R = ([Debug (if (0::32 word) \<noteq> 0 then Attempt_job 0 ''prolog'' ''/etc/slurm/prolog''
                             else Attempt ''prolog'' ''/etc/slurm/prolog''),
               Access ''/etc/slurm/prolog'' (access_rc ?os), Fork (fork_rc ?os)]
                @ concat (replicate 3 [Waitpid (fork_rc ?os) WNOHANG Wait_none, Sleep 1]), Pending)"
    by blast
  then have d: "?R = ([Debug (Attempt ''prolog'' ''/etc/slurm/prolog''), Access ''/etc/slurm/prolog'' 0, Fork 977]
          @ concat (replicate 3 [Waitpid 977 WNOHANG Wait_none, Sleep 1]), Pending)"
    by simp
  from a d show ?thesis by blast
qed

end
